theory Spec2Isabelle
  imports Complex_Main "HOL-Library.Multiset" "HOL-Library.Finite_Map"
begin

section \<open>The notebook DS\_SQL.ipynb as a program over a relational store\<close>

text \<open>
  The repository is one notebook. Its code cells are SQL statements sent to SQLite
  through the \<^verbatim>\<open>%%sql\<close> magic and a few Python statements (pandas, sqlite3).
  The statements are transcribed below as values of an abstract syntax, cell by cell,
  and run by an interpreter for the statement forms the notebook uses.

  Scope of the interpreter. Values are stored as they are written: SQLite's
  conversion of text that looks like a number is not modelled, integers are
  unbounded and NUMBER/REAL values are exact decimal fractions (type \<open>rat\<close>), so
  64-bit overflow and binary floating-point rounding are outside the model.
  Foreign-key enforcement is a setting of the engine (\<^verbatim>\<open>PRAGMA foreign_keys\<close>,
  off unless the engine was built otherwise); the notebook never sets it, so it is a
  parameter of the environment here.
\<close>

subsection \<open>Values, schemas, tables\<close>

datatype val = Null | IntV int | NumV rat | TextV string

datatype sqltype = INTEGER | NUMBER | TEXT | REAL

record column =
  col_name :: string
  col_type :: sqltype
  col_pk :: bool
  col_notnull :: bool

record fkey =
  fk_col :: string
  fk_table :: string
  fk_ref :: string

record table =
  tbl_cols :: "column list"
  tbl_fks :: "fkey list"
  tbl_rows :: "val list list"

type_synonym db = "(string, table) fmap"

datatype error =
    NoSuchTable string
  | TableExists string
  | NoSuchColumn string
  | AmbiguousColumn string
  | DuplicateColumn string
  | MultiplePrimaryKeys string
  | UnknownFkColumn string
  | ArityMismatch
  | DatatypeMismatch
  | NotNullViolation string string
  | UniqueViolation string string
  | ForeignKeyViolation
  | ForeignKeyMismatch string string
  | NoConnection
  | NameError string
  | FileNotFound string
  | NotModelled

text \<open>Numeric reading of a value; comparison for equality is three-valued.\<close>

fun num_of :: "val \<Rightarrow> rat option" where
  "num_of (IntV i) = Some (of_int i)"
| "num_of (NumV q) = Some q"
| "num_of _ = None"

fun sql_eq :: "val \<Rightarrow> val \<Rightarrow> bool option" where
  "sql_eq Null _ = None"
| "sql_eq _ Null = None"
| "sql_eq (TextV s) (TextV t) = Some (s = t)"
| "sql_eq (TextV s) _ = Some False"
| "sql_eq _ (TextV t) = Some False"
| "sql_eq a b = Some (num_of a = num_of b)"

definition same_key :: "val \<Rightarrow> val \<Rightarrow> bool" where
  "same_key a b = (sql_eq a b = Some True)"

fun int_of :: "val \<Rightarrow> int option" where
  "int_of (IntV i) = Some i"
| "int_of (NumV q) = (if q = of_int \<lfloor>q\<rfloor> then Some \<lfloor>q\<rfloor> else None)"
| "int_of _ = None"

definition cell_at :: "val list \<Rightarrow> nat \<Rightarrow> val" where
  "cell_at r i = (if i < length r then r ! i else Null)"

fun col_index :: "column list \<Rightarrow> string \<Rightarrow> nat option" where
  "col_index [] c = None"
| "col_index (x # xs) c =
     (if col_name x = c then Some 0 else map_option Suc (col_index xs c))"

fun pk_col :: "column list \<Rightarrow> (nat \<times> column) option" where
  "pk_col [] = None"
| "pk_col (x # xs) =
     (if col_pk x then Some (0, x)
      else map_option (\<lambda>(i, c). (Suc i, c)) (pk_col xs))"

text \<open>An INTEGER PRIMARY KEY column is the row id: rows are kept in its order.\<close>

definition rowid_col :: "column list \<Rightarrow> nat option" where
  "rowid_col cols =
     (case pk_col cols of
        None \<Rightarrow> None
      | Some (i, c) \<Rightarrow> if col_type c = INTEGER then Some i else None)"

definition col_values :: "table \<Rightarrow> string \<Rightarrow> val list" where
  "col_values tb c =
     (case col_index (tbl_cols tb) c of
        None \<Rightarrow> []
      | Some i \<Rightarrow> map (\<lambda>r. cell_at r i) (tbl_rows tb))"

definition is_parent_key :: "table \<Rightarrow> string \<Rightarrow> bool" where
  "is_parent_key tb c =
     (case pk_col (tbl_cols tb) of None \<Rightarrow> False | Some (i, k) \<Rightarrow> col_name k = c)"

subsection \<open>CREATE TABLE and DROP TABLE IF EXISTS\<close>

definition create_table :: "db \<Rightarrow> string \<Rightarrow> column list \<Rightarrow> fkey list \<Rightarrow> error + db" where
  "create_table d t cols fks =
     (if fmlookup d t \<noteq> None then Inl (TableExists t)
      else if \<not> distinct (map col_name cols) then Inl (DuplicateColumn t)
      else if 1 < length (filter col_pk cols) then Inl (MultiplePrimaryKeys t)
      else (case find (\<lambda>f. fk_col f \<notin> set (map col_name cols)) fks of
              Some f \<Rightarrow> Inl (UnknownFkColumn (fk_col f))
            | None \<Rightarrow> Inr (fmupd t \<lparr>tbl_cols = cols, tbl_fks = fks, tbl_rows = []\<rparr> d)))"

text \<open>
  With enforcement on, DROP TABLE first deletes the rows of the table, which fails when
  a row of another table refers to one of them through a declared foreign key.
\<close>

definition fk_hits :: "table \<Rightarrow> string \<Rightarrow> table \<Rightarrow> fkey \<Rightarrow> bool" where
  "fk_hits pt t ct f =
     (fk_table f = t \<and> is_parent_key pt (fk_ref f) \<and>
      list_ex (\<lambda>v. list_ex (same_key v) (col_values pt (fk_ref f)))
        (col_values ct (fk_col f)))"

definition referenced :: "db \<Rightarrow> string \<Rightarrow> table \<Rightarrow> bool" where
  "referenced d t pt =
     (\<exists>c \<in> fmdom' d. c \<noteq> t \<and>
        (case fmlookup d c of
           None \<Rightarrow> False
         | Some ct \<Rightarrow> list_ex (fk_hits pt t ct) (tbl_fks ct)))"

definition drop_table_if_exists :: "bool \<Rightarrow> db \<Rightarrow> string \<Rightarrow> error + db" where
  "drop_table_if_exists fk d t =
     (case fmlookup d t of
        None \<Rightarrow> Inr d
      | Some pt \<Rightarrow>
          if fk \<and> referenced d t pt then Inl ForeignKeyViolation
          else Inr (fmdrop t d))"

subsection \<open>INSERT INTO ... VALUES\<close>

definition arrange :: "column list \<Rightarrow> string list \<Rightarrow> val list \<Rightarrow> val list" where
  "arrange tcols cols r =
     map (\<lambda>c. case map_of (zip cols r) (col_name c) of None \<Rightarrow> Null | Some v \<Rightarrow> v) tcols"

definition rowid_key :: "nat \<Rightarrow> val list \<Rightarrow> int" where
  "rowid_key i r = (case int_of (cell_at r i) of None \<Rightarrow> 0 | Some n \<Rightarrow> n)"

definition next_rowid :: "nat \<Rightarrow> val list list \<Rightarrow> int" where
  "next_rowid i rows =
     (if rows = [] then 1 else Max (set (map (rowid_key i) rows)) + 1)"

definition assign_rowid :: "column list \<Rightarrow> val list list \<Rightarrow> val list \<Rightarrow> error + val list" where
  "assign_rowid cols rows r =
     (case rowid_col cols of
        None \<Rightarrow> Inr r
      | Some i \<Rightarrow>
          if cell_at r i = Null then Inr (r[i := IntV (next_rowid i rows)])
          else (case int_of (cell_at r i) of
                  None \<Rightarrow> Inl DatatypeMismatch
                | Some n \<Rightarrow> Inr (r[i := IntV n])))"

definition null_in_notnull :: "column list \<Rightarrow> val list \<Rightarrow> column option" where
  "null_in_notnull cols r =
     map_option fst (find (\<lambda>(c, v). col_notnull c \<and> v = Null) (zip cols r))"

definition key_taken :: "column list \<Rightarrow> val list list \<Rightarrow> val list \<Rightarrow> column option" where
  "key_taken cols rows r =
     (case pk_col cols of
        None \<Rightarrow> None
      | Some (i, c) \<Rightarrow>
          if list_ex (\<lambda>r0. same_key (cell_at r0 i) (cell_at r i)) rows then Some c else None)"

definition place :: "column list \<Rightarrow> val list list \<Rightarrow> val list \<Rightarrow> val list list" where
  "place cols rows r =
     (case rowid_col cols of
        None \<Rightarrow> rows @ [r]
      | Some i \<Rightarrow> insort_key (rowid_key i) r rows)"

definition insert_row ::
  "string \<Rightarrow> column list \<Rightarrow> val list list \<Rightarrow> val list \<Rightarrow> error + (val list list \<times> val list)" where
  "insert_row t cols rows r =
     (case assign_rowid cols rows r of
        Inl e \<Rightarrow> Inl e
      | Inr r' \<Rightarrow>
          (case null_in_notnull cols r' of
             Some c \<Rightarrow> Inl (NotNullViolation t (col_name c))
           | None \<Rightarrow>
               (case key_taken cols rows r' of
                  Some c \<Rightarrow> Inl (UniqueViolation t (col_name c))
                | None \<Rightarrow> Inr (place cols rows r', r'))))"

fun insert_rows ::
  "string \<Rightarrow> column list \<Rightarrow> val list list \<Rightarrow> val list list \<Rightarrow> val list list
     \<Rightarrow> error + (val list list \<times> val list list)" where
  "insert_rows t cols rows new [] = Inr (rows, new)"
| "insert_rows t cols rows new (r # rs) =
     (case insert_row t cols rows r of
        Inl e \<Rightarrow> Inl e
      | Inr (rows', r') \<Rightarrow> insert_rows t cols rows' (new @ [r']) rs)"

text \<open>
  Foreign keys, when enforced: the parent table and its key must exist when the
  statement is compiled; each inserted row with a non-null child key needs a parent row.
\<close>

definition fk_parent_ok :: "db \<Rightarrow> string \<Rightarrow> fkey \<Rightarrow> error option" where
  "fk_parent_ok d t f =
     (case fmlookup d (fk_table f) of
        None \<Rightarrow> Some (NoSuchTable (fk_table f))
      | Some pt \<Rightarrow>
          if is_parent_key pt (fk_ref f) then None
          else Some (ForeignKeyMismatch t (fk_table f)))"

fun fk_parents_ok :: "db \<Rightarrow> string \<Rightarrow> fkey list \<Rightarrow> error option" where
  "fk_parents_ok d t [] = None"
| "fk_parents_ok d t (f # fs) =
     (case fk_parent_ok d t f of Some e \<Rightarrow> Some e | None \<Rightarrow> fk_parents_ok d t fs)"

definition fk_row_ok :: "db \<Rightarrow> column list \<Rightarrow> val list \<Rightarrow> fkey \<Rightarrow> bool" where
  "fk_row_ok d cols r f =
     (case col_index cols (fk_col f) of
        None \<Rightarrow> True
      | Some i \<Rightarrow>
          cell_at r i = Null \<or>
          (case fmlookup d (fk_table f) of
             None \<Rightarrow> False
           | Some pt \<Rightarrow> list_ex (same_key (cell_at r i)) (col_values pt (fk_ref f))))"

definition fks_satisfied :: "db \<Rightarrow> table \<Rightarrow> val list list \<Rightarrow> bool" where
  "fks_satisfied d tb new =
     list_all (\<lambda>r. list_all (fk_row_ok d (tbl_cols tb) r) (tbl_fks tb)) new"

definition insert_into ::
  "bool \<Rightarrow> db \<Rightarrow> string \<Rightarrow> string list \<Rightarrow> val list list \<Rightarrow> error + db" where
  "insert_into fk d t cols rows =
     (case fmlookup d t of
        None \<Rightarrow> Inl (NoSuchTable t)
      | Some tb \<Rightarrow>
          (case find (\<lambda>c. c \<notin> set (map col_name (tbl_cols tb))) cols of
             Some c \<Rightarrow> Inl (NoSuchColumn c)
           | None \<Rightarrow>
               if list_ex (\<lambda>r. length r \<noteq> length cols) rows then Inl ArityMismatch
               else
                 (case (if fk then fk_parents_ok d t (tbl_fks tb) else None) of
                    Some e \<Rightarrow> Inl e
                  | None \<Rightarrow>
                      (case insert_rows t (tbl_cols tb) (tbl_rows tb) []
                              (map (arrange (tbl_cols tb) cols) rows) of
                         Inl e \<Rightarrow> Inl e
                       | Inr (rows', new) \<Rightarrow>
                           (let d' = fmupd t (tb\<lparr>tbl_rows := rows'\<rparr>) d
                            in if fk \<and> \<not> fks_satisfied d' tb new
                               then Inl ForeignKeyViolation else Inr d')))))"

subsection \<open>SELECT: syntax, name resolution, evaluation\<close>

datatype vexpr = Col "string option" string | Lit val

datatype cmpop = OpEq | OpNeq | OpLt | OpGt

datatype cond =
    Cmp cmpop vexpr vexpr
  | CAnd cond cond
  | COr cond cond
  | CLike vexpr string
  | CIn vexpr "val list"
  | CNotIn vexpr "val list"

datatype aggfun = AggSum | AggAvg | AggMax | AggCountDistinct

datatype item = Star | Plain vexpr | Agg aggfun vexpr

datatype dir = ASC | DESC

datatype tref = Tref string "string option"

datatype joined = Comma tref | JoinOn tref cond

datatype query =
  Query (q_items: "(item \<times> string option) list") (q_from: source)
        (q_where: "cond option") (q_group: "vexpr list") (q_having: "cond option")
        (q_order: "(vexpr \<times> dir) list") (q_limit: "nat option")
and source = Tables tref "joined list" | Sub query string

type_synonym scope = "(string \<times> string list) list"

fun tref_scope :: "db \<Rightarrow> tref \<Rightarrow> error + (string \<times> string list)" where
  "tref_scope d (Tref t a) =
     (case fmlookup d t of
        None \<Rightarrow> Inl (NoSuchTable t)
      | Some tb \<Rightarrow>
          Inr (case a of None \<Rightarrow> t | Some x \<Rightarrow> x, map col_name (tbl_cols tb)))"

fun joined_tref :: "joined \<Rightarrow> tref" where
  "joined_tref (Comma r) = r"
| "joined_tref (JoinOn r c) = r"

fun joined_on :: "joined \<Rightarrow> cond list" where
  "joined_on (Comma r) = []"
| "joined_on (JoinOn r c) = [c]"

fun trefs_scope :: "db \<Rightarrow> tref list \<Rightarrow> error + scope" where
  "trefs_scope d [] = Inr []"
| "trefs_scope d (r # rs) =
     (case tref_scope d r of
        Inl e \<Rightarrow> Inl e
      | Inr b \<Rightarrow> (case trefs_scope d rs of Inl e \<Rightarrow> Inl e | Inr sc \<Rightarrow> Inr (b # sc)))"

definition col_text :: "string option \<Rightarrow> string \<Rightarrow> string" where
  "col_text q c = (case q of None \<Rightarrow> c | Some a \<Rightarrow> a @ ''.'' @ c)"

text \<open>
  A column reference resolves to exactly one column of the tables in scope; an
  unqualified name that matches none may be an alias of the select list.
\<close>

fun check_vexpr :: "scope \<Rightarrow> string list \<Rightarrow> vexpr \<Rightarrow> error option" where
  "check_vexpr sc als (Lit v) = None"
| "check_vexpr sc als (Col q c) =
     (case filter (\<lambda>(b, cols). (q = None \<or> q = Some b) \<and> c \<in> set cols) sc of
        [] \<Rightarrow> if q = None \<and> c \<in> set als then None else Some (NoSuchColumn (col_text q c))
      | [m] \<Rightarrow> None
      | m # m' # ms \<Rightarrow> Some (AmbiguousColumn (col_text q c)))"

fun first_error :: "error option list \<Rightarrow> error option" where
  "first_error [] = None"
| "first_error (None # xs) = first_error xs"
| "first_error (Some e # xs) = Some e"

fun check_cond :: "scope \<Rightarrow> string list \<Rightarrow> cond \<Rightarrow> error option" where
  "check_cond sc als (Cmp opr a b) = first_error [check_vexpr sc als a, check_vexpr sc als b]"
| "check_cond sc als (CAnd a b) = first_error [check_cond sc als a, check_cond sc als b]"
| "check_cond sc als (COr a b) = first_error [check_cond sc als a, check_cond sc als b]"
| "check_cond sc als (CLike a p) = check_vexpr sc als a"
| "check_cond sc als (CIn a vs) = check_vexpr sc als a"
| "check_cond sc als (CNotIn a vs) = check_vexpr sc als a"

fun check_item :: "scope \<Rightarrow> item \<Rightarrow> error option" where
  "check_item sc Star = None"
| "check_item sc (Plain e) = check_vexpr sc [] e"
| "check_item sc (Agg f e) = check_vexpr sc [] e"

fun item_cols :: "scope \<Rightarrow> item \<times> string option \<Rightarrow> string list" where
  "item_cols sc (i, Some a) = [a]"
| "item_cols sc (Star, None) = concat (map snd sc)"
| "item_cols sc (Plain (Col q c), None) = [c]"
| "item_cols sc (Plain (Lit v), None) = []"
| "item_cols sc (Agg f e, None) = []"

fun item_alias :: "item \<times> string option \<Rightarrow> string list" where
  "item_alias (i, Some a) = [a]"
| "item_alias (i, None) = []"

definition opt_list :: "'a option \<Rightarrow> 'a list" where
  "opt_list x = (case x of None \<Rightarrow> [] | Some y \<Rightarrow> [y])"

text \<open>
  The order of resolution is the engine's: result columns, WHERE, the ON conditions,
  HAVING, GROUP BY, ORDER BY. The result is the list of output column names.
\<close>

definition check_core ::
  "scope \<Rightarrow> cond list \<Rightarrow> (item \<times> string option) list \<Rightarrow> cond option \<Rightarrow> vexpr list
     \<Rightarrow> cond option \<Rightarrow> (vexpr \<times> dir) list \<Rightarrow> error + string list" where
  "check_core sc ons items w g h ob =
     (let als = concat (map item_alias items) in
      case first_error
             (map (check_item sc \<circ> fst) items
              @ map (check_cond sc als) (opt_list w)
              @ map (check_cond sc als) ons
              @ map (check_cond sc als) (opt_list h)
              @ map (check_vexpr sc als) g
              @ map (check_vexpr sc als \<circ> fst) ob) of
        Some e \<Rightarrow> Inl e
      | None \<Rightarrow> Inr (concat (map (item_cols sc) items)))"

fun check_query :: "db \<Rightarrow> query \<Rightarrow> error + string list"
  and source_scope :: "db \<Rightarrow> source \<Rightarrow> error + (scope \<times> cond list)" where
  "check_query d (Query items src w g h ob lm) =
     (case source_scope d src of
        Inl e \<Rightarrow> Inl e
      | Inr (sc, ons) \<Rightarrow> check_core sc ons items w g h ob)"
| "source_scope d (Tables r js) =
     (case trefs_scope d (r # map joined_tref js) of
        Inl e \<Rightarrow> Inl e
      | Inr sc \<Rightarrow> Inr (sc, concat (map joined_on js)))"
| "source_scope d (Sub q a) =
     (case check_query d q of
        Inl e \<Rightarrow> Inl e
      | Inr cols \<Rightarrow> Inr ([(a, cols)], []))"

text \<open>
  Evaluation, for the queries whose result a claim speaks about: one select list of
  plain columns, \<open>*\<close> or SUM over base tables joined by comma or JOIN ... ON, with a
  WHERE clause built from comparisons, AND, OR, IN and NOT IN. Everything else
  (GROUP BY, HAVING, ORDER BY, LIMIT, LIKE, subqueries, the other aggregates) is
  resolved by \<open>check_query\<close> but evaluates to \<open>NotModelled\<close>.
\<close>

type_synonym jrow = "((string \<times> string) \<times> val) list"

fun str_lt :: "string \<Rightarrow> string \<Rightarrow> bool" where
  "str_lt [] [] = False"
| "str_lt [] (y # ys) = True"
| "str_lt (x # xs) [] = False"
| "str_lt (x # xs) (y # ys) =
     ((of_char x :: nat) < of_char y \<or> (x = y \<and> str_lt xs ys))"

fun sql_lt :: "val \<Rightarrow> val \<Rightarrow> bool option" where
  "sql_lt Null _ = None"
| "sql_lt _ Null = None"
| "sql_lt (TextV s) (TextV t) = Some (str_lt s t)"
| "sql_lt (TextV s) _ = Some False"
| "sql_lt _ (TextV t) = Some True"
| "sql_lt a b = Some (case (num_of a, num_of b) of (Some x, Some y) \<Rightarrow> x < y | _ \<Rightarrow> False)"

fun and3 :: "bool option \<Rightarrow> bool option \<Rightarrow> bool option" where
  "and3 (Some False) _ = Some False"
| "and3 _ (Some False) = Some False"
| "and3 (Some True) (Some True) = Some True"
| "and3 _ _ = None"

fun or3 :: "bool option \<Rightarrow> bool option \<Rightarrow> bool option" where
  "or3 (Some True) _ = Some True"
| "or3 _ (Some True) = Some True"
| "or3 (Some False) (Some False) = Some False"
| "or3 _ _ = None"

fun eval_vexpr :: "jrow \<Rightarrow> vexpr \<Rightarrow> val" where
  "eval_vexpr r (Lit v) = v"
| "eval_vexpr r (Col q c) =
     (case find (\<lambda>((b, n), v). (q = None \<or> q = Some b) \<and> n = c) r of
        None \<Rightarrow> Null
      | Some (k, v) \<Rightarrow> v)"

fun eval_cmp :: "cmpop \<Rightarrow> val \<Rightarrow> val \<Rightarrow> bool option" where
  "eval_cmp OpEq a b = sql_eq a b"
| "eval_cmp OpNeq a b = map_option Not (sql_eq a b)"
| "eval_cmp OpLt a b = sql_lt a b"
| "eval_cmp OpGt a b = sql_lt b a"

fun eval_cond :: "jrow \<Rightarrow> cond \<Rightarrow> bool option" where
  "eval_cond r (Cmp opr a b) = eval_cmp opr (eval_vexpr r a) (eval_vexpr r b)"
| "eval_cond r (CAnd a b) = and3 (eval_cond r a) (eval_cond r b)"
| "eval_cond r (COr a b) = or3 (eval_cond r a) (eval_cond r b)"
| "eval_cond r (CLike a p) = None"
| "eval_cond r (CIn a vs) =
     foldr (\<lambda>v acc. or3 (sql_eq (eval_vexpr r a) v) acc) vs (Some False)"
| "eval_cond r (CNotIn a vs) =
     map_option Not (foldr (\<lambda>v acc. or3 (sql_eq (eval_vexpr r a) v) acc) vs (Some False))"

fun has_like :: "cond \<Rightarrow> bool" where
  "has_like (Cmp opr a b) = False"
| "has_like (CAnd a b) = (has_like a \<or> has_like b)"
| "has_like (COr a b) = (has_like a \<or> has_like b)"
| "has_like (CLike a p) = True"
| "has_like (CIn a vs) = False"
| "has_like (CNotIn a vs) = False"

definition holds :: "cond \<Rightarrow> jrow \<Rightarrow> bool" where
  "holds c r = (eval_cond r c = Some True)"

fun scan :: "db \<Rightarrow> tref \<Rightarrow> jrow list" where
  "scan d (Tref t a) =
     (case fmlookup d t of
        None \<Rightarrow> []
      | Some tb \<Rightarrow>
          map (\<lambda>r. map (\<lambda>(i, c). ((case a of None \<Rightarrow> t | Some x \<Rightarrow> x, col_name c), cell_at r i))
                     (enumerate 0 (tbl_cols tb)))
              (tbl_rows tb))"

fun join_step :: "db \<Rightarrow> jrow list \<Rightarrow> joined \<Rightarrow> jrow list" where
  "join_step d acc (Comma r) = concat (map (\<lambda>r1. map (\<lambda>r2. r1 @ r2) (scan d r)) acc)"
| "join_step d acc (JoinOn r c) =
     concat (map (\<lambda>r1. filter (holds c) (map (\<lambda>r2. r1 @ r2) (scan d r))) acc)"

definition from_rows :: "db \<Rightarrow> tref \<Rightarrow> joined list \<Rightarrow> jrow list" where
  "from_rows d r js = foldl (join_step d) (scan d r) js"

definition where_rows :: "cond option \<Rightarrow> jrow list \<Rightarrow> jrow list" where
  "where_rows w rows = (case w of None \<Rightarrow> rows | Some c \<Rightarrow> filter (holds c) rows)"

text \<open>SUM skips NULL, is NULL over no value, an integer over integers only.\<close>

fun is_text :: "val \<Rightarrow> bool" where
  "is_text (TextV s) = True"
| "is_text _ = False"

fun is_int :: "val \<Rightarrow> bool" where
  "is_int (IntV i) = True"
| "is_int _ = False"

definition sql_sum :: "val list \<Rightarrow> error + val" where
  "sql_sum vs =
     (let xs = filter (\<lambda>v. v \<noteq> Null) vs in
      if list_ex is_text xs then Inl NotModelled
      else if xs = [] then Inr Null
      else if list_all is_int xs
        then Inr (IntV (sum_list (map (\<lambda>v. case int_of v of None \<Rightarrow> 0 | Some i \<Rightarrow> i) xs)))
        else Inr (NumV (sum_list (map (\<lambda>v. case num_of v of None \<Rightarrow> 0 | Some q \<Rightarrow> q) xs))))"

fun plain_expr :: "item \<times> string option \<Rightarrow> vexpr option" where
  "plain_expr (Plain e, a) = Some e"
| "plain_expr _ = None"

definition select_rows :: "(item \<times> string option) list \<Rightarrow> jrow list \<Rightarrow> error + val list list" where
  "select_rows items rows =
     (case items of
        [(Star, None)] \<Rightarrow> Inr (map (map snd) rows)
      | [(Agg AggSum e, a)] \<Rightarrow>
          (case sql_sum (map (\<lambda>r. eval_vexpr r e) rows) of
             Inl e \<Rightarrow> Inl e
           | Inr v \<Rightarrow> Inr [[v]])
      | _ \<Rightarrow>
          if list_all (\<lambda>i. plain_expr i \<noteq> None) items
          then Inr (map (\<lambda>r. map (eval_vexpr r) (concat (map (opt_list \<circ> plain_expr) items))) rows)
          else Inl NotModelled)"

fun eval_query :: "db \<Rightarrow> query \<Rightarrow> error + val list list" where
  "eval_query d (Query items (Sub q a) w g h ob lm) =
     (case check_query d (Query items (Sub q a) w g h ob lm) of
        Inl e \<Rightarrow> Inl e
      | Inr cols \<Rightarrow> Inl NotModelled)"
| "eval_query d (Query items (Tables r js) w g h ob lm) =
     (case check_query d (Query items (Tables r js) w g h ob lm) of
        Inl e \<Rightarrow> Inl e
      | Inr cols \<Rightarrow>
          if g \<noteq> [] \<or> h \<noteq> None \<or> ob \<noteq> [] \<or> lm \<noteq> None
             \<or> list_ex has_like (opt_list w @ concat (map joined_on js))
          then Inl NotModelled
          else select_rows items (where_rows w (from_rows d r js)))"

subsection \<open>The statements of a \<^verbatim>\<open>%%sql\<close> cell\<close>

datatype sql =
    DropTableIfExists string
  | CreateTable string "column list" "fkey list"
  | InsertInto string "string list" "val list list"
  | Select query

fun exec_sql :: "bool \<Rightarrow> db \<Rightarrow> sql \<Rightarrow> error + db" where
  "exec_sql fk d (DropTableIfExists t) = drop_table_if_exists fk d t"
| "exec_sql fk d (CreateTable t cols fks) = create_table d t cols fks"
| "exec_sql fk d (InsertInto t cols rows) = insert_into fk d t cols rows"
| "exec_sql fk d (Select q) =
     (case check_query d q of Inl e \<Rightarrow> Inl e | Inr cols \<Rightarrow> Inr d)"

subsection \<open>pandas: data frames, \<^verbatim>\<open>read_csv\<close>, \<^verbatim>\<open>to_sql\<close>\<close>

text \<open>
  A data frame is a list of typed columns and a list of rows. The CSV files are not
  part of the repository: the frame that \<^verbatim>\<open>read_csv\<close> returns for a path is
  an input of the run. \<^verbatim>\<open>to_sql\<close> creates the table from the frame alone:
  column names and types, no key, no NOT NULL, no foreign key.
\<close>

record frame =
  df_cols :: "(string \<times> sqltype) list"
  df_rows :: "val list list"

datatype if_exists = Fail | Replace | Append

definition frame_columns :: "frame \<Rightarrow> bool \<Rightarrow> column list" where
  "frame_columns f idx =
     map (\<lambda>(n, ty). \<lparr>col_name = n, col_type = ty, col_pk = False, col_notnull = False\<rparr>)
       ((if idx then [(''index'', INTEGER)] else []) @ df_cols f)"

definition frame_rows :: "frame \<Rightarrow> bool \<Rightarrow> val list list" where
  "frame_rows f idx =
     (if idx then map (\<lambda>(i, r). IntV (int i) # r) (enumerate 0 (df_rows f)) else df_rows f)"

definition create_and_fill :: "bool \<Rightarrow> db \<Rightarrow> string \<Rightarrow> frame \<Rightarrow> bool \<Rightarrow> error + db" where
  "create_and_fill fk d t f idx =
     (case create_table d t (frame_columns f idx) [] of
        Inl e \<Rightarrow> Inl e
      | Inr d1 \<Rightarrow>
          insert_into fk d1 t (map col_name (frame_columns f idx)) (frame_rows f idx))"

definition to_sql :: "bool \<Rightarrow> db \<Rightarrow> frame \<Rightarrow> string \<Rightarrow> bool \<Rightarrow> if_exists \<Rightarrow> error + db" where
  "to_sql fk d f t idx ie =
     (case fmlookup d t of
        None \<Rightarrow> create_and_fill fk d t f idx
      | Some tb \<Rightarrow>
          (case ie of
             Fail \<Rightarrow> Inl (TableExists t)
           | Replace \<Rightarrow>
               (case drop_table_if_exists fk d t of
                  Inl e \<Rightarrow> Inl e
                | Inr d1 \<Rightarrow> create_and_fill fk d1 t f idx)
           | Append \<Rightarrow>
               insert_into fk d t (map col_name (frame_columns f idx)) (frame_rows f idx)))"

subsection \<open>The notebook's statements and their execution\<close>

datatype stmt =
    Magic string
  | Import string
  | SetRcParam string int
  | SqlConnect string
  | Sql sql
  | PyConnect string string
  | ReadCsv string string
  | ToSql string string string bool if_exists

text \<open>
  The state of a session: the database files by path (a missing file is an empty
  database), the connection of the SQL magic, the Python variables holding
  connections and frames. The environment: the engine's foreign-key setting and the
  CSV files by path.
\<close>

record state =
  dbfiles :: "string \<rightharpoonup> db"
  sql_conn :: "string option"
  py_conns :: "string \<rightharpoonup> string"
  frames :: "string \<rightharpoonup> frame"

record env =
  fk_enforced :: bool
  csv_files :: "string \<rightharpoonup> frame"

definition db_at :: "state \<Rightarrow> string \<Rightarrow> db" where
  "db_at st p = (case dbfiles st p of None \<Rightarrow> fmempty | Some d \<Rightarrow> d)"

definition sqlite_url_path :: "string \<Rightarrow> string option" where
  "sqlite_url_path u =
     (if take 10 u = ''sqlite:///'' then Some (drop 10 u) else None)"

definition on_db :: "state \<Rightarrow> string \<Rightarrow> error + db \<Rightarrow> error + state" where
  "on_db st p r =
     (case r of
        Inl e \<Rightarrow> Inl e
      | Inr d \<Rightarrow> Inr (st\<lparr>dbfiles := (dbfiles st)(p \<mapsto> d)\<rparr>))"

fun exec :: "env \<Rightarrow> stmt \<Rightarrow> state \<Rightarrow> error + state" where
  "exec en (Magic m) st = Inr st"
| "exec en (Import m) st = Inr st"
| "exec en (SetRcParam k v) st = Inr st"
| "exec en (SqlConnect u) st =
     (case sqlite_url_path u of
        None \<Rightarrow> Inl NotModelled
      | Some p \<Rightarrow> Inr (st\<lparr>sql_conn := Some p\<rparr>))"
| "exec en (Sql s) st =
     (case sql_conn st of
        None \<Rightarrow> Inl NoConnection
      | Some p \<Rightarrow> on_db st p (exec_sql (fk_enforced en) (db_at st p) s))"
| "exec en (PyConnect v p) st = Inr (st\<lparr>py_conns := (py_conns st)(v \<mapsto> p)\<rparr>)"
| "exec en (ReadCsv v path) st =
     (case csv_files en path of
        None \<Rightarrow> Inl (FileNotFound path)
      | Some f \<Rightarrow> Inr (st\<lparr>frames := (frames st)(v \<mapsto> f)\<rparr>))"
| "exec en (ToSql v t c idx ie) st =
     (case frames st v of
        None \<Rightarrow> Inl (NameError v)
      | Some f \<Rightarrow>
          (case py_conns st c of
             None \<Rightarrow> Inl (NameError c)
           | Some p \<Rightarrow> on_db st p (to_sql (fk_enforced en) (db_at st p) f t idx ie)))"

text \<open>A failing statement ends the run with its error: nothing catches it.\<close>

fun run :: "env \<Rightarrow> stmt list \<Rightarrow> state \<Rightarrow> error + state" where
  "run en [] st = Inr st"
| "run en (s # ss) st =
     (case exec en s st of Inl e \<Rightarrow> Inl e | Inr st' \<Rightarrow> run en ss st')"

text \<open>A \<^verbatim>\<open>%%sql\<close> cell sends its statements to the engine one after the other.\<close>

definition sql_cell :: "sql list \<Rightarrow> stmt list" where
  "sql_cell ss = map Sql ss"

subsection \<open>The code cells, in notebook order\<close>

definition cell0 :: "stmt list" where
  "cell0 = [Magic ''matplotlib inline'', Import ''matplotlib'', Import ''seaborn'',
            SetRcParam ''savefig.dpi'' 144]"

definition cell5 :: "stmt list" where
  "cell5 = [Magic ''load_ext sql'', SqlConnect ''sqlite:///testdb.sqlite'']"

definition customers_cols :: "column list" where
  "customers_cols =
     [\<lparr>col_name = ''id'', col_type = INTEGER, col_pk = True, col_notnull = True\<rparr>,
      \<lparr>col_name = ''name'', col_type = TEXT, col_pk = False, col_notnull = True\<rparr>,
      \<lparr>col_name = ''billing_address'', col_type = TEXT, col_pk = False, col_notnull = True\<rparr>]"

definition products_cols :: "column list" where
  "products_cols =
     [\<lparr>col_name = ''id'', col_type = INTEGER, col_pk = True, col_notnull = True\<rparr>,
      \<lparr>col_name = ''price'', col_type = NUMBER, col_pk = False, col_notnull = True\<rparr>]"

definition orders_cols :: "column list" where
  "orders_cols =
     [\<lparr>col_name = ''id'', col_type = INTEGER, col_pk = False, col_notnull = True\<rparr>,
      \<lparr>col_name = ''customer_id'', col_type = NUMBER, col_pk = False, col_notnull = True\<rparr>,
      \<lparr>col_name = ''product_id'', col_type = NUMBER, col_pk = False, col_notnull = True\<rparr>,
      \<lparr>col_name = ''delivery_address'', col_type = TEXT, col_pk = False, col_notnull = True\<rparr>]"

definition orders_fks :: "fkey list" where
  "orders_fks =
     [\<lparr>fk_col = ''customer_id'', fk_table = ''customers'', fk_ref = ''id''\<rparr>,
      \<lparr>fk_col = ''product_id'', fk_table = ''products'', fk_ref = ''id''\<rparr>]"

definition cell6 :: "stmt list" where
  "cell6 =
     sql_cell
       [DropTableIfExists ''customers'',
        DropTableIfExists ''products'',
        DropTableIfExists ''orders'',
        CreateTable ''customers'' customers_cols [],
        CreateTable ''products'' products_cols [],
        CreateTable ''orders'' orders_cols orders_fks]"

definition select_all :: "string \<Rightarrow> query" where
  "select_all t = Query [(Star, None)] (Tables (Tref t None) []) None [] None [] None"

definition cell8 :: "stmt list" where
  "cell8 = sql_cell [Select (select_all ''customers'')]"

definition insert_customers :: sql where
  "insert_customers =
     InsertInto ''customers'' [''id'', ''name'', ''billing_address'']
       [[IntV 435, TextV ''Omar'', TextV ''Berlin, Germany''],
        [IntV 5692, TextV ''Stuart'', TextV ''Dover, UK''],
        [IntV 6127, TextV ''Vidhya'', TextV ''Mumbai, India'']]"

definition insert_products :: sql where
  "insert_products =
     InsertInto ''products'' [''id'', ''price'']
       [[IntV 103, NumV 6.95], [IntV 4028, NumV 35.5], [IntV 3158, NumV 101.99],
        [IntV 2561, NumV 21.35], [IntV 89, NumV 16.95]]"

definition orders_insert_cols :: "string list" where
  "orders_insert_cols = [''id'', ''customer_id'', ''product_id'', ''delivery_address'']"

definition insert_orders1 :: sql where
  "insert_orders1 =
     InsertInto ''orders'' orders_insert_cols
       [[IntV 62353, IntV 435, IntV 103, TextV ''Munich, Germany''],
        [IntV 62353, IntV 435, IntV 4028, TextV ''Tunis, Tunisia'']]"

definition insert_orders2 :: sql where
  "insert_orders2 =
     InsertInto ''orders'' orders_insert_cols
       [[IntV 64598, IntV 5692, IntV 103, TextV ''Dover, UK''],
        [IntV 65271, IntV 5692, IntV 103, TextV ''Dover, UK'']]"

definition insert_orders3 :: sql where
  "insert_orders3 =
     InsertInto ''orders'' orders_insert_cols
       [[IntV 64921, IntV 6127, IntV 3158, TextV ''Mumbai, India''],
        [IntV 64989, IntV 6127, IntV 2561, TextV ''Mumbai, India''],
        [IntV 64989, IntV 6127, IntV 89, TextV ''Mumbai, India'']]"

definition cell10 :: "stmt list" where
  "cell10 =
     sql_cell [insert_customers, insert_products,
               insert_orders1, insert_orders2, insert_orders3]"

definition cell12 :: "stmt list" where
  "cell12 = sql_cell [Select (select_all ''customers'')]"

definition cell13 :: "stmt list" where
  "cell13 = sql_cell [Select (select_all ''products'')]"

definition cell14 :: "stmt list" where
  "cell14 = sql_cell [Select (select_all ''orders'')]"

definition cell16 :: "stmt list" where
  "cell16 =
     [Import ''pandas'', Import ''sqlite3'',
      PyConnect ''conn'' ''testdb.sqlite'',
      ReadCsv ''customers'' ''data/customers.csv'',
      ReadCsv ''products'' ''data/products.csv'',
      ReadCsv ''orders'' ''data/orders.csv'',
      ToSql ''customers'' ''customers'' ''conn'' False Replace,
      ToSql ''products'' ''products'' ''conn'' False Replace,
      ToSql ''orders'' ''orders'' ''conn'' False Replace]"

definition from_table :: "string \<Rightarrow> source" where
  "from_table t = Tables (Tref t None) []"

definition cell18 :: "stmt list" where
  "cell18 =
     sql_cell [Select (Query
        [(Plain (Col None ''id''), None), (Plain (Col None ''delivery_country''), None)]
        (from_table ''orders'')
        (Some (Cmp OpEq (Col None ''delivery_country'') (Lit (TextV ''India''))))
        [] None [] (Some 10))]"

definition cell19 :: "stmt list" where
  "cell19 =
     sql_cell [Select (Query [(Star, None)] (from_table ''products'')
        (Some (Cmp OpGt (Col None ''price'') (Lit (IntV 20))))
        [] None [] (Some 10))]"

definition cell21 :: "stmt list" where
  "cell21 =
     sql_cell [Select (Query
        [(Plain (Col None ''id''), None), (Plain (Col None ''delivery_country''), None)]
        (from_table ''orders'')
        (Some (CLike (Col None ''delivery_country'') ''S%''))
        [] None [] (Some 10))]"

definition cell22 :: "stmt list" where
  "cell22 =
     sql_cell [Select (Query [(Star, None)] (from_table ''orders'')
        (Some (CIn (Col None ''customer_id'') [IntV 10, IntV 200, IntV 400]))
        [] None [] None)]"

definition cell24 :: "stmt list" where
  "cell24 =
     sql_cell [Select (Query [(Star, None)] (from_table ''orders'')
        (Some (CAnd (CIn (Col None ''customer_id'') [IntV 10, IntV 200, IntV 400])
                    (CNotIn (Col None ''delivery_country'')
                       [TextV ''Madagascar'', TextV ''Canada''])))
        [] None [] None)]"

definition cell25 :: "stmt list" where
  "cell25 =
     sql_cell [Select (Query [(Star, None)] (from_table ''products'')
        (Some (COr (Cmp OpLt (Col None ''price'') (Lit (IntV 10)))
                   (Cmp OpGt (Col None ''price'') (Lit (IntV 30)))))
        [] None [] (Some 10))]"

definition cell27 :: "stmt list" where
  "cell27 =
     sql_cell [Select (Query [(Star, None)] (from_table ''orders'') None [] None
        [(Col None ''customer_id'', ASC)] (Some 10))]"

definition cell28 :: "stmt list" where
  "cell28 =
     sql_cell [Select (Query [(Star, None)] (from_table ''orders'') None [] None
        [(Col None ''customer_id'', ASC), (Col None ''product_id'', DESC)] (Some 10))]"

definition cell30 :: "stmt list" where
  "cell30 =
     sql_cell [Select (Query
        [(Agg AggAvg (Col None ''price''), None), (Agg AggMax (Col None ''price''), None)]
        (from_table ''products'') None [] None [] None)]"

definition cell32 :: "stmt list" where
  "cell32 =
     sql_cell [Select (Query
        [(Plain (Col None ''delivery_country''), None),
         (Agg AggCountDistinct (Col None ''id''), None)]
        (from_table ''orders'') None [Col None ''delivery_country''] None [] (Some 10))]"

definition sum_join_on :: query where
  "sum_join_on =
     Query [(Agg AggSum (Col (Some ''p'') ''price''), None)]
       (Tables (Tref ''orders'' (Some ''o''))
          [JoinOn (Tref ''products'' (Some ''p''))
             (Cmp OpEq (Col (Some ''o'') ''product_id'') (Col (Some ''p'') ''id''))])
       None [] None [] None"

definition sum_comma_where :: query where
  "sum_comma_where =
     Query [(Agg AggSum (Col (Some ''p'') ''price''), None)]
       (Tables (Tref ''orders'' (Some ''o'')) [Comma (Tref ''products'' (Some ''p''))])
       (Some (Cmp OpEq (Col (Some ''p'') ''id'') (Col (Some ''o'') ''product_id'')))
       [] None [] None"

definition cell34 :: "stmt list" where
  "cell34 = sql_cell [Select sum_join_on]"

definition cell36 :: "stmt list" where
  "cell36 = sql_cell [Select sum_comma_where]"

definition cell37 :: "stmt list" where
  "cell37 =
     sql_cell [Select (Query
        [(Plain (Col (Some ''c'') ''name''), None),
         (Agg AggSum (Col (Some ''p'') ''price''), Some ''total'')]
        (Tables (Tref ''orders'' (Some ''o''))
           [Comma (Tref ''products'' (Some ''p'')), Comma (Tref ''customers'' (Some ''c''))])
        (Some (CAnd (Cmp OpEq (Col (Some ''p'') ''id'') (Col (Some ''o'') ''product_id''))
                    (Cmp OpEq (Col (Some ''c'') ''id'') (Col (Some ''o'') ''customer_id''))))
        [Col (Some ''c'') ''id''] None [(Col None ''total'', ASC)] (Some 10))]"

definition shipped :: query where
  "shipped =
     Query
       [(Plain (Col (Some ''c'') ''billing_country''), Some ''bill''),
        (Plain (Col (Some ''o'') ''delivery_country''), Some ''deliver''),
        (Agg AggSum (Col (Some ''p'') ''price''), Some ''rev'')]
       (Tables (Tref ''orders'' (Some ''o''))
          [Comma (Tref ''customers'' (Some ''c'')), Comma (Tref ''products'' (Some ''p''))])
       (Some (CAnd (Cmp OpEq (Col (Some ''o'') ''customer_id'') (Col (Some ''c'') ''id''))
                   (Cmp OpEq (Col (Some ''o'') ''product_id'') (Col (Some ''p'') ''id''))))
       [Col None ''bill'', Col None ''deliver'']
       (Some (Cmp OpNeq (Col None ''bill'') (Col None ''deliver'')))
       [] None"

definition cell39 :: "stmt list" where
  "cell39 =
     sql_cell [Select (Query
        [(Plain (Col (Some ''shp'') ''bill''), None),
         (Agg AggSum (Col (Some ''shp'') ''rev''), Some ''spent'')]
        (Sub shipped ''shp'')
        None [Col (Some ''shp'') ''bill''] None [(Col None ''spent'', DESC)] (Some 10))]"

definition notebook :: "stmt list list" where
  "notebook =
     [cell0, cell5, cell6, cell8, cell10, cell12, cell13, cell14, cell16,
      cell18, cell19, cell21, cell22, cell24, cell25, cell27, cell28, cell30, cell32,
      cell34, cell36, cell37, cell39]"

definition notebook_stmts :: "stmt list" where
  "notebook_stmts = concat notebook"

subsection \<open>Notions used to state the properties\<close>

text \<open>
  A new session, the run of the statements of one SQL cell on a database, the
  databases reached after cell 6 and after cell 10 from a database \<open>d0\<close>, and
  referential integrity of the orders table.
\<close>

definition fresh :: state where
  "fresh = \<lparr>dbfiles = Map.empty, sql_conn = None, py_conns = Map.empty, frames = Map.empty\<rparr>"

fun run_sql :: "bool \<Rightarrow> sql list \<Rightarrow> db \<Rightarrow> error + db" where
  "run_sql fk [] d = Inr d"
| "run_sql fk (s # ss) d =
     (case exec_sql fk d s of Inl e \<Rightarrow> Inl e | Inr d' \<Rightarrow> run_sql fk ss d')"

definition empty_table :: "column list \<Rightarrow> fkey list \<Rightarrow> table" where
  "empty_table cols fks = \<lparr>tbl_cols = cols, tbl_fks = fks, tbl_rows = []\<rparr>"

definition db_after_cell6 :: "db \<Rightarrow> db" where
  "db_after_cell6 d0 =
     fmupd ''orders'' (empty_table orders_cols orders_fks)
       (fmupd ''products'' (empty_table products_cols [])
          (fmupd ''customers'' (empty_table customers_cols [])
             (fmdrop ''orders'' (fmdrop ''products'' (fmdrop ''customers'' d0)))))"

definition parent_keys :: "db \<Rightarrow> string \<Rightarrow> string \<Rightarrow> val list" where
  "parent_keys d t c = (case fmlookup d t of None \<Rightarrow> [] | Some pt \<Rightarrow> col_values pt c)"

definition refs_ok :: "db \<Rightarrow> string \<Rightarrow> string \<Rightarrow> string \<Rightarrow> string \<Rightarrow> bool" where
  "refs_ok d child ccol parent pcol =
     (case fmlookup d child of
        None \<Rightarrow> True
      | Some ct \<Rightarrow>
          (case col_index (tbl_cols ct) ccol of
             None \<Rightarrow> tbl_rows ct = []
           | Some i \<Rightarrow>
               list_all (\<lambda>r. list_ex (same_key (cell_at r i)) (parent_keys d parent pcol))
                 (tbl_rows ct)))"

definition ref_integrity :: "db \<Rightarrow> bool" where
  "ref_integrity d =
     (refs_ok d ''orders'' ''customer_id'' ''customers'' ''id'' \<and>
      refs_ok d ''orders'' ''product_id'' ''products'' ''id'')"

definition customers_rows :: "val list list" where
  "customers_rows =
     [[IntV 435, TextV ''Omar'', TextV ''Berlin, Germany''],
      [IntV 5692, TextV ''Stuart'', TextV ''Dover, UK''],
      [IntV 6127, TextV ''Vidhya'', TextV ''Mumbai, India'']]"

definition products_rows :: "val list list" where
  "products_rows =
     [[IntV 89, NumV 16.95], [IntV 103, NumV 6.95], [IntV 2561, NumV 21.35],
      [IntV 3158, NumV 101.99], [IntV 4028, NumV 35.5]]"

definition orders_rows :: "val list list" where
  "orders_rows =
     [[IntV 62353, IntV 435, IntV 103, TextV ''Munich, Germany''],
      [IntV 62353, IntV 435, IntV 4028, TextV ''Tunis, Tunisia''],
      [IntV 64598, IntV 5692, IntV 103, TextV ''Dover, UK''],
      [IntV 65271, IntV 5692, IntV 103, TextV ''Dover, UK''],
      [IntV 64921, IntV 6127, IntV 3158, TextV ''Mumbai, India''],
      [IntV 64989, IntV 6127, IntV 2561, TextV ''Mumbai, India''],
      [IntV 64989, IntV 6127, IntV 89, TextV ''Mumbai, India'']]"

definition db_after_cell10 :: "db \<Rightarrow> db" where
  "db_after_cell10 d0 =
     fmupd ''orders'' \<lparr>tbl_cols = orders_cols, tbl_fks = orders_fks, tbl_rows = orders_rows\<rparr>
       (fmupd ''products'' \<lparr>tbl_cols = products_cols, tbl_fks = [], tbl_rows = products_rows\<rparr>
          (fmupd ''customers'' \<lparr>tbl_cols = customers_cols, tbl_fks = [], tbl_rows = customers_rows\<rparr>
             (db_after_cell6 d0)))"

text \<open>The code cells up to the literal inserts, and up to the bulk load.\<close>

definition upto_cell6 :: "stmt list" where
  "upto_cell6 = concat (take 3 notebook)"

definition upto_cell10 :: "stmt list" where
  "upto_cell10 = concat (take 5 notebook)"

definition upto_cell16 :: "stmt list" where
  "upto_cell16 = concat (take 9 notebook)"



text \<open>CSV files whose orders refer to a customer that customers.csv does not have.\<close>

definition dangling_csv :: "string \<rightharpoonup> frame" where
  "dangling_csv =
     [''data/customers.csv'' \<mapsto>
        \<lparr>df_cols = [(''id'', INTEGER), (''name'', TEXT), (''billing_country'', TEXT)],
         df_rows = [[IntV 1, TextV ''Ann'', TextV ''India'']]\<rparr>,
      ''data/products.csv'' \<mapsto>
        \<lparr>df_cols = [(''id'', INTEGER), (''price'', REAL)],
         df_rows = [[IntV 1, NumV 2.5]]\<rparr>,
      ''data/orders.csv'' \<mapsto>
        \<lparr>df_cols = [(''id'', INTEGER), (''customer_id'', INTEGER), (''product_id'', INTEGER),
                    (''delivery_country'', TEXT)],
         df_rows = [[IntV 7, IntV 2, IntV 1, TextV ''Kenya'']]\<rparr>]"





















section \<open>Properties\<close>

lemmas schema_defs = customers_cols_def products_cols_def orders_cols_def orders_fks_def
  orders_insert_cols_def empty_table_def
lemmas insert_defs = insert_into_def insert_row_def assign_rowid_def rowid_col_def
  null_in_notnull_def key_taken_def place_def arrange_def rowid_key_def cell_at_def same_key_def
  fks_satisfied_def fk_row_ok_def fk_parent_ok_def is_parent_key_def col_values_def

lemma run_append:
  "run en (a @ b) st = (case run en a st of Inl e \<Rightarrow> Inl e | Inr st1 \<Rightarrow> run en b st1)"
  by (induction a arbitrary: st) (auto split: sum.splits)

lemma run_sql_append:
  "run_sql fk (a @ b) d = (case run_sql fk a d of Inl e \<Rightarrow> Inl e | Inr d1 \<Rightarrow> run_sql fk b d1)"
  by (induction a arbitrary: d) (auto split: sum.splits)

lemma drop_off: "drop_table_if_exists False d t = Inr (fmdrop t d)"
  by (auto simp: drop_table_if_exists_def fmdrop_idle' fmdom'_notI split: option.splits)

lemma drop_absent: "fmlookup d t = None \<Longrightarrow> drop_table_if_exists fk d t = Inr (fmdrop t d)"
  by (auto simp: drop_table_if_exists_def fmdrop_idle' fmdom'_notI split: option.splits)

lemma run_sql_cell:
  "sql_conn st = Some p \<Longrightarrow>
   run en (sql_cell ss) st =
     (case run_sql (fk_enforced en) ss (db_at st p) of
        Inl e \<Rightarrow> Inl e
      | Inr d \<Rightarrow> Inr (if ss = [] then st else st\<lparr>dbfiles := (dbfiles st)(p \<mapsto> d)\<rparr>))"
proof (induction ss arbitrary: st)
  case Nil
  then show ?case by (simp add: sql_cell_def)
next
  case (Cons s ss)
  show ?case
  proof (cases "exec_sql (fk_enforced en) (db_at st p) s")
    case (Inl e)
    with Cons.prems show ?thesis by (simp add: on_db_def sql_cell_def)
  next
    case (Inr d)
    let ?st1 = "st\<lparr>dbfiles := (dbfiles st)(p \<mapsto> d)\<rparr>"
    have c: "sql_conn ?st1 = Some p" using Cons.prems by simp
    have d: "db_at ?st1 p = d" by (simp add: db_at_def)
    show ?thesis using Cons.prems Inr Cons.IH[OF c] d
      by (auto simp: on_db_def sql_cell_def split: sum.splits)
  qed
qed

lemma sql_cell_append: "sql_cell a @ sql_cell b = sql_cell (a @ b)"
  by (simp add: sql_cell_def)

lemma cell6_sql:
  "\<not> fk \<or> d0 = fmempty \<Longrightarrow>
   run_sql fk [DropTableIfExists ''customers'', DropTableIfExists ''products'',
      DropTableIfExists ''orders'', CreateTable ''customers'' customers_cols [],
      CreateTable ''products'' products_cols [],
      CreateTable ''orders'' orders_cols orders_fks] d0 = Inr (db_after_cell6 d0)"
  apply (erule disjE)
   apply (simp add: drop_off create_table_def db_after_cell6_def schema_defs)
  apply (simp add: drop_absent create_table_def db_after_cell6_def schema_defs)
  done

lemma start:
  "run en (cell0 @ cell5) st = Inr (st\<lparr>sql_conn := Some ''testdb.sqlite''\<rparr>)"
  by (simp add: cell0_def cell5_def sqlite_url_path_def)

text \<open>A run that starts with cells 0 and 5 and goes on with SQL cells only.\<close>

lemma run_sql_session:
  "run en (cell0 @ cell5 @ sql_cell ss) st =
     (case run_sql (fk_enforced en) ss (db_at st ''testdb.sqlite'') of
        Inl e \<Rightarrow> Inl e
      | Inr d \<Rightarrow>
          Inr (if ss = [] then st\<lparr>sql_conn := Some ''testdb.sqlite''\<rparr>
               else st\<lparr>sql_conn := Some ''testdb.sqlite'',
                       dbfiles := (dbfiles st)(''testdb.sqlite'' \<mapsto> d)\<rparr>))"
proof -
  let ?st1 = "st\<lparr>sql_conn := Some ''testdb.sqlite''\<rparr>"
  have c: "sql_conn ?st1 = Some ''testdb.sqlite''" by simp
  have d: "db_at ?st1 ''testdb.sqlite'' = db_at st ''testdb.sqlite''" by (simp add: db_at_def)
  have "run en ((cell0 @ cell5) @ sql_cell ss) st = run en (sql_cell ss) ?st1"
    unfolding run_append[of en "cell0 @ cell5" "sql_cell ss" st] start by simp
  then show ?thesis
    unfolding run_sql_cell[OF c] d by (auto split: sum.splits)
qed

lemmas insert_stmts = insert_customers_def insert_products_def insert_orders1_def
  insert_orders2_def insert_orders3_def

lemma cell10_sql:
  "run_sql fk [insert_customers, insert_products, insert_orders1, insert_orders2, insert_orders3]
     (db_after_cell6 d0) = Inr (db_after_cell10 d0)"
  by (simp add: db_after_cell6_def db_after_cell10_def insert_stmts schema_defs insert_defs
      customers_rows_def products_rows_def orders_rows_def)

lemma cell8_sql:
  "run_sql fk [Select (select_all ''customers'')] (db_after_cell6 d0) = Inr (db_after_cell6 d0)"
  by (simp add: db_after_cell6_def select_all_def schema_defs check_core_def opt_list_def)

lemma notebook_to_cell10:
  "upto_cell10 =
     cell0 @ cell5 @ sql_cell
       ([DropTableIfExists ''customers'', DropTableIfExists ''products'',
         DropTableIfExists ''orders'', CreateTable ''customers'' customers_cols [],
         CreateTable ''products'' products_cols [],
         CreateTable ''orders'' orders_cols orders_fks]
        @ [Select (select_all ''customers'')]
        @ [insert_customers, insert_products, insert_orders1, insert_orders2, insert_orders3])"
  by (simp add: upto_cell10_def notebook_def cell6_def cell8_def cell10_def sql_cell_def)

lemma run_to_cell10:
  assumes "\<not> fk_enforced en \<or> dbfiles st ''testdb.sqlite'' = None"
  shows "run en (upto_cell10) st =
     Inr (st\<lparr>sql_conn := Some ''testdb.sqlite'',
            dbfiles := (dbfiles st)(''testdb.sqlite'' \<mapsto> db_after_cell10 (db_at st ''testdb.sqlite''))\<rparr>)"
proof -
  have h: "\<not> fk_enforced en \<or> db_at st ''testdb.sqlite'' = fmempty"
    using assms by (auto simp: db_at_def)
  show ?thesis
    unfolding notebook_to_cell10 run_sql_session
    by (simp only: run_sql_append cell6_sql[OF h] cell8_sql cell10_sql sum.case
        append_is_Nil_conv list.distinct if_False simp_thms)
qed

lemma select_customers:
  "eval_query (db_after_cell10 d0) (select_all ''customers'') = Inr customers_rows"
  by (simp add: db_after_cell10_def select_all_def customers_rows_def schema_defs
      check_core_def opt_list_def from_rows_def where_rows_def select_rows_def cell_at_def)

lemma sum_literal:
  "eval_query (db_after_cell10 d0) sum_join_on = Inr [[NumV 196.64]]"
  by (simp add: db_after_cell10_def sum_join_on_def orders_rows_def products_rows_def schema_defs
      check_core_def opt_list_def from_rows_def where_rows_def select_rows_def cell_at_def
      holds_def sql_sum_def)


section \<open>C6: the customers table after the literal inserts\<close>

text \<open>
  C6. Cells 0 to 10 run without error when foreign-key enforcement is off (whatever the
  database file held before) or when the database file is new, and then the query of
  cell 12, \<^verbatim>\<open>SELECT * FROM customers\<close>, returns exactly the three rows of
  Omar, Stuart and Vidhya with their ids and billing addresses.
\<close>

theorem customers_after_literal_inserts:
  assumes "\<not> fk_enforced en \<or> dbfiles st ''testdb.sqlite'' = None"
  shows "\<exists>st'. run en upto_cell10 st = Inr st' \<and>
           eval_query (db_at st' ''testdb.sqlite'') (select_all ''customers'') =
             Inr [[IntV 435, TextV ''Omar'', TextV ''Berlin, Germany''],
                  [IntV 5692, TextV ''Stuart'', TextV ''Dover, UK''],
                  [IntV 6127, TextV ''Vidhya'', TextV ''Mumbai, India'']]"
  using run_to_cell10[OF assms] select_customers[of "db_at st ''testdb.sqlite''"]
  by (simp add: db_at_def customers_rows_def)

theorem customers_after_literal_inserts_witness:
  "dbfiles fresh ''testdb.sqlite'' = None \<and>
   (\<exists>st'. run \<lparr>fk_enforced = True, csv_files = Map.empty\<rparr> upto_cell10 fresh = Inr st' \<and>
           eval_query (db_at st' ''testdb.sqlite'') (select_all ''customers'') =
             Inr [[IntV 435, TextV ''Omar'', TextV ''Berlin, Germany''],
                  [IntV 5692, TextV ''Stuart'', TextV ''Dover, UK''],
                  [IntV 6127, TextV ''Vidhya'', TextV ''Mumbai, India'']])"
proof -
  have h: "\<not> fk_enforced \<lparr>fk_enforced = True, csv_files = Map.empty\<rparr>
      \<or> dbfiles fresh ''testdb.sqlite'' = None"
    by (simp add: fresh_def)
  show ?thesis using customers_after_literal_inserts[OF h] by (simp add: fresh_def)
qed

section \<open>C5: total price of the literal orders\<close>

text \<open>
  C5. On the literal sample data (the state after cells 0 to 10), the query of cell 34,
  \<^verbatim>\<open>SELECT SUM(p.price) FROM orders AS o JOIN products AS p ON o.product_id = p.id\<close>,
  returns the single value 196.64, which is 6.95 + 35.50 + 6.95 + 6.95 + 101.99 + 21.35
  + 16.95. Prices are exact decimal fractions here.
\<close>

theorem sum_of_prices_on_literal_data:
  assumes "\<not> fk_enforced en \<or> dbfiles st ''testdb.sqlite'' = None"
  shows "\<exists>st'. run en upto_cell10 st = Inr st' \<and>
           eval_query (db_at st' ''testdb.sqlite'') sum_join_on = Inr [[NumV 196.64]] \<and>
           (6.95 + 35.50 + 6.95 + 6.95 + 101.99 + 21.35 + 16.95 :: rat) = 196.64"
  using run_to_cell10[OF assms] sum_literal[of "db_at st ''testdb.sqlite''"]
  by (simp add: db_at_def)

theorem sum_of_prices_on_literal_data_witness:
  "fk_enforced \<lparr>fk_enforced = False, csv_files = Map.empty\<rparr> = False \<and>
   (\<exists>st'. run \<lparr>fk_enforced = False, csv_files = Map.empty\<rparr> upto_cell10 fresh = Inr st' \<and>
           eval_query (db_at st' ''testdb.sqlite'') sum_join_on = Inr [[NumV 196.64]] \<and>
           (6.95 + 35.50 + 6.95 + 6.95 + 101.99 + 21.35 + 16.95 :: rat) = 196.64)"
proof -
  have h: "\<not> fk_enforced \<lparr>fk_enforced = False, csv_files = Map.empty\<rparr>
      \<or> dbfiles fresh ''testdb.sqlite'' = None"
    by simp
  show ?thesis using h sum_of_prices_on_literal_data[OF h] by simp
qed

section \<open>C10: JOIN ... ON against comma and WHERE\<close>









section \<open>C2: the schema created by cell 6\<close>

lemma upto_cell6_eq:
  "upto_cell6 =
     cell0 @ cell5 @ sql_cell
       [DropTableIfExists ''customers'', DropTableIfExists ''products'',
        DropTableIfExists ''orders'', CreateTable ''customers'' customers_cols [],
        CreateTable ''products'' products_cols [],
        CreateTable ''orders'' orders_cols orders_fks]"
  by (simp add: upto_cell6_def notebook_def cell6_def)

lemma run_to_cell6:
  assumes "\<not> fk_enforced en \<or> dbfiles st ''testdb.sqlite'' = None"
  shows "run en upto_cell6 st =
     Inr (st\<lparr>sql_conn := Some ''testdb.sqlite'',
            dbfiles := (dbfiles st)(''testdb.sqlite'' \<mapsto> db_after_cell6 (db_at st ''testdb.sqlite''))\<rparr>)"
proof -
  have h: "\<not> fk_enforced en \<or> db_at st ''testdb.sqlite'' = fmempty"
    using assms by (auto simp: db_at_def)
  show ?thesis
    unfolding upto_cell6_eq run_sql_session
    by (simp only: cell6_sql[OF h] sum.case list.distinct if_False simp_thms)
qed

lemma customers_key_unique:
  "insert_into fk (db_after_cell6 d0) ''customers'' [''id'', ''name'', ''billing_address'']
     [[IntV i, TextV a, TextV b], [IntV i, TextV a', TextV b']]
   = Inl (UniqueViolation ''customers'' ''id'')"
  by (simp add: db_after_cell6_def schema_defs insert_defs)

lemma products_key_unique:
  "insert_into fk (db_after_cell6 d0) ''products'' [''id'', ''price'']
     [[IntV i, NumV x], [IntV i, NumV y]]
   = Inl (UniqueViolation ''products'' ''id'')"
  by (simp add: db_after_cell6_def schema_defs insert_defs)

lemma orders_id_repeats:
  "\<not> isl (insert_into False (db_after_cell6 d0) ''orders'' orders_insert_cols
     [[IntV i, IntV c1, IntV p1, TextV a1], [IntV i, IntV c2, IntV p2, TextV a2]])"
  by (simp add: db_after_cell6_def schema_defs insert_defs)

text \<open>
  C2. Cells 0 to 6 create three tables. customers: id INTEGER, the primary key, with
  name TEXT and billing\_address TEXT. products: id INTEGER, the primary key, with price
  NUMBER. orders: id INTEGER with no key on it, customer\_id referring to customers(id),
  product\_id referring to products(id), delivery\_address TEXT. Every column of the three
  is declared NOT NULL. The keys are unique (a second row with the id of an earlier one is
  refused) and the id of orders is not (two rows with one id are accepted).
\<close>

theorem schema_matches_data_model:
  assumes "\<not> fk_enforced en \<or> dbfiles st ''testdb.sqlite'' = None"
  shows "\<exists>st' tc tp tor.
     run en upto_cell6 st = Inr st' \<and>
     fmlookup (db_at st' ''testdb.sqlite'') ''customers'' = Some tc \<and>
     fmlookup (db_at st' ''testdb.sqlite'') ''products'' = Some tp \<and>
     fmlookup (db_at st' ''testdb.sqlite'') ''orders'' = Some tor \<and>
     map (\<lambda>c. (col_name c, col_type c)) (tbl_cols tc) =
       [(''id'', INTEGER), (''name'', TEXT), (''billing_address'', TEXT)] \<and>
     map col_name (filter col_pk (tbl_cols tc)) = [''id''] \<and>
     map (\<lambda>c. (col_name c, col_type c)) (tbl_cols tp) = [(''id'', INTEGER), (''price'', NUMBER)] \<and>
     map col_name (filter col_pk (tbl_cols tp)) = [''id''] \<and>
     map (\<lambda>c. (col_name c, col_type c)) (tbl_cols tor) =
       [(''id'', INTEGER), (''customer_id'', NUMBER), (''product_id'', NUMBER),
        (''delivery_address'', TEXT)] \<and>
     filter col_pk (tbl_cols tor) = [] \<and>
     tbl_fks tc = [] \<and> tbl_fks tp = [] \<and>
     tbl_fks tor =
       [\<lparr>fk_col = ''customer_id'', fk_table = ''customers'', fk_ref = ''id''\<rparr>,
        \<lparr>fk_col = ''product_id'', fk_table = ''products'', fk_ref = ''id''\<rparr>] \<and>
     list_all col_notnull (tbl_cols tc @ tbl_cols tp @ tbl_cols tor) \<and>
     (\<forall>i a b a' b'.
        insert_into (fk_enforced en) (db_at st' ''testdb.sqlite'') ''customers''
          [''id'', ''name'', ''billing_address'']
          [[IntV i, TextV a, TextV b], [IntV i, TextV a', TextV b']]
        = Inl (UniqueViolation ''customers'' ''id'')) \<and>
     (\<forall>i x y.
        insert_into (fk_enforced en) (db_at st' ''testdb.sqlite'') ''products''
          [''id'', ''price''] [[IntV i, NumV x], [IntV i, NumV y]]
        = Inl (UniqueViolation ''products'' ''id'')) \<and>
     (\<forall>i c1 p1 a1 c2 p2 a2.
        \<not> isl (insert_into False (db_at st' ''testdb.sqlite'') ''orders'' orders_insert_cols
          [[IntV i, IntV c1, IntV p1, TextV a1], [IntV i, IntV c2, IntV p2, TextV a2]]))"
proof -
  let ?d = "db_after_cell6 (db_at st ''testdb.sqlite'')"
  let ?st' = "st\<lparr>sql_conn := Some ''testdb.sqlite'',
                  dbfiles := (dbfiles st)(''testdb.sqlite'' \<mapsto> ?d)\<rparr>"
  have r: "run en upto_cell6 st = Inr ?st'" by (rule run_to_cell6[OF assms])
  have d: "db_at ?st' ''testdb.sqlite'' = ?d" by (simp add: db_at_def)
  have lc: "fmlookup ?d ''customers'' = Some (empty_table customers_cols [])"
    and lp: "fmlookup ?d ''products'' = Some (empty_table products_cols [])"
    and lo: "fmlookup ?d ''orders'' = Some (empty_table orders_cols orders_fks)"
    by (simp_all add: db_after_cell6_def)
  show ?thesis
    apply (rule exI[of _ ?st'])
    apply (rule exI[of _ "empty_table customers_cols []"])
    apply (rule exI[of _ "empty_table products_cols []"])
    apply (rule exI[of _ "empty_table orders_cols orders_fks"])
    unfolding d
    apply (intro conjI allI)
                   apply (rule r)
                  apply (rule lc)
                 apply (rule lp)
                apply (rule lo)
               apply (simp_all add: schema_defs customers_key_unique products_key_unique)
    apply (rule orders_id_repeats[unfolded orders_insert_cols_def])
    done
qed

theorem schema_matches_data_model_witness:
  "dbfiles fresh ''testdb.sqlite'' = None \<and>
   (\<exists>st' tc tp tor.
     run \<lparr>fk_enforced = True, csv_files = Map.empty\<rparr> upto_cell6 fresh = Inr st' \<and>
     fmlookup (db_at st' ''testdb.sqlite'') ''customers'' = Some tc \<and>
     fmlookup (db_at st' ''testdb.sqlite'') ''products'' = Some tp \<and>
     fmlookup (db_at st' ''testdb.sqlite'') ''orders'' = Some tor \<and>
     map (\<lambda>c. (col_name c, col_type c)) (tbl_cols tc) =
       [(''id'', INTEGER), (''name'', TEXT), (''billing_address'', TEXT)] \<and>
     map col_name (filter col_pk (tbl_cols tc)) = [''id''] \<and>
     map (\<lambda>c. (col_name c, col_type c)) (tbl_cols tp) = [(''id'', INTEGER), (''price'', NUMBER)] \<and>
     map col_name (filter col_pk (tbl_cols tp)) = [''id''] \<and>
     map (\<lambda>c. (col_name c, col_type c)) (tbl_cols tor) =
       [(''id'', INTEGER), (''customer_id'', NUMBER), (''product_id'', NUMBER),
        (''delivery_address'', TEXT)] \<and>
     filter col_pk (tbl_cols tor) = [] \<and>
     tbl_fks tc = [] \<and> tbl_fks tp = [] \<and>
     tbl_fks tor =
       [\<lparr>fk_col = ''customer_id'', fk_table = ''customers'', fk_ref = ''id''\<rparr>,
        \<lparr>fk_col = ''product_id'', fk_table = ''products'', fk_ref = ''id''\<rparr>] \<and>
     list_all col_notnull (tbl_cols tc @ tbl_cols tp @ tbl_cols tor) \<and>
     (\<forall>i a b a' b'.
        insert_into True (db_at st' ''testdb.sqlite'') ''customers''
          [''id'', ''name'', ''billing_address'']
          [[IntV i, TextV a, TextV b], [IntV i, TextV a', TextV b']]
        = Inl (UniqueViolation ''customers'' ''id'')) \<and>
     (\<forall>i x y.
        insert_into True (db_at st' ''testdb.sqlite'') ''products''
          [''id'', ''price''] [[IntV i, NumV x], [IntV i, NumV y]]
        = Inl (UniqueViolation ''products'' ''id'')) \<and>
     (\<forall>i c1 p1 a1 c2 p2 a2.
        \<not> isl (insert_into False (db_at st' ''testdb.sqlite'') ''orders'' orders_insert_cols
          [[IntV i, IntV c1, IntV p1, TextV a1], [IntV i, IntV c2, IntV p2, TextV a2]])))"
proof -
  have h: "\<not> fk_enforced \<lparr>fk_enforced = True, csv_files = Map.empty\<rparr>
      \<or> dbfiles fresh ''testdb.sqlite'' = None"
    by (simp add: fresh_def)
  show ?thesis using schema_matches_data_model[OF h] by (simp add: fresh_def)
qed

section \<open>C4: foreign keys on insertion\<close>





section \<open>C1: referential integrity\<close>

lemma notebook_stmts_split:
  "notebook_stmts =
     upto_cell6 @
     sql_cell [Select (select_all ''customers''), insert_customers, insert_products,
               insert_orders1, insert_orders2, insert_orders3,
               Select (select_all ''customers''), Select (select_all ''products''),
               Select (select_all ''orders'')] @
     concat (drop 8 notebook)"
  by (simp add: notebook_stmts_def upto_cell6_def notebook_def sql_cell_def
      cell8_def cell10_def cell12_def cell13_def cell14_def)

lemma length_upto_cell6: "length upto_cell6 = 12"
  by (simp add: upto_cell6_def notebook_def cell0_def cell5_def cell6_def sql_cell_def)

lemma literal_steps:
  assumes "m \<le> 9"
  shows "\<exists>d. run_sql fk
            (take m [Select (select_all ''customers''), insert_customers, insert_products,
               insert_orders1, insert_orders2, insert_orders3,
               Select (select_all ''customers''), Select (select_all ''products''),
               Select (select_all ''orders'')])
            (db_after_cell6 d0) = Inr d \<and> ref_integrity d"
proof -
  from assms have "m = 0 \<or> m = 1 \<or> m = 2 \<or> m = 3 \<or> m = 4 \<or> m = 5
    \<or> m = 6 \<or> m = 7 \<or> m = 8 \<or> m = 9"
    by arith
  then show ?thesis
    by (elim disjE)
      (simp_all add: db_after_cell6_def insert_stmts schema_defs insert_defs select_all_def
        check_core_def opt_list_def ref_integrity_def refs_ok_def parent_keys_def)
qed


lemmas cell_defs = cell0_def cell5_def cell6_def cell8_def cell10_def cell12_def cell13_def
  cell14_def cell16_def cell18_def cell19_def cell21_def cell22_def cell24_def cell25_def
  cell27_def cell28_def cell30_def cell32_def cell34_def cell36_def cell37_def cell39_def

lemmas query_defs = select_all_def from_table_def sum_join_on_def sum_comma_where_def shipped_def
  check_core_def opt_list_def col_text_def

lemmas to_sql_defs = to_sql_def create_and_fill_def create_table_def frame_columns_def
  frame_rows_def drop_off

text \<open>
  C1 fails as stated. With enforcement off and CSV files in which an order names
  customer 2 while customers.csv has customer 1 only, the whole notebook runs without
  error and ends in a database whose orders table refers to a customer that does not
  exist: the tables written by \<^verbatim>\<open>to_sql\<close> carry no foreign key.
\<close>

theorem integrity_lost_after_bulk_load:
  "(case run \<lparr>fk_enforced = False, csv_files = dangling_csv\<rparr> notebook_stmts fresh of
      Inl e \<Rightarrow> False
    | Inr st \<Rightarrow>
        map_option tbl_rows (fmlookup (db_at st ''testdb.sqlite'') ''orders'') =
          Some [[IntV 7, IntV 2, IntV 1, TextV ''Kenya'']] \<and>
        map_option tbl_rows (fmlookup (db_at st ''testdb.sqlite'') ''customers'') =
          Some [[IntV 1, TextV ''Ann'', TextV ''India'']] \<and>
        ref_integrity (db_at st ''testdb.sqlite'') = False)"
  by (simp add: notebook_stmts_def notebook_def cell_defs sql_cell_def fresh_def dangling_csv_def
      sqlite_url_path_def on_db_def db_at_def insert_stmts schema_defs insert_defs
      query_defs to_sql_defs ref_integrity_def refs_ok_def parent_keys_def)


text \<open>
  C1, as the code has it. From the end of cell 6 to just before the bulk load of cell 16
  (statements 12 to 21 of the notebook), every database state satisfies referential
  integrity: each orders row names a customer and a product that exist. This holds
  with enforcement off from any earlier content of the database file, and with
  enforcement on from a new file: the literal rows are consistent and the parents are
  inserted first.
\<close>

theorem literal_states_keep_integrity:
  assumes "\<not> fk_enforced en \<or> dbfiles st ''testdb.sqlite'' = None"
    and "12 \<le> n" and "n \<le> 21"
  shows "\<exists>st'. run en (take n notebook_stmts) st = Inr st' \<and>
           ref_integrity (db_at st' ''testdb.sqlite'')"
proof -
  let ?L = "[Select (select_all ''customers''), insert_customers, insert_products,
               insert_orders1, insert_orders2, insert_orders3,
               Select (select_all ''customers''), Select (select_all ''products''),
               Select (select_all ''orders'')]"
  let ?d6 = "db_after_cell6 (db_at st ''testdb.sqlite'')"
  let ?st1 = "st\<lparr>sql_conn := Some ''testdb.sqlite'',
                  dbfiles := (dbfiles st)(''testdb.sqlite'' \<mapsto> ?d6)\<rparr>"
  have m: "n - 12 \<le> 9" using assms(3) by simp
  have l: "length (sql_cell ?L) = 9" by (simp add: sql_cell_def)
  have t1: "take n upto_cell6 = upto_cell6"
    using assms(2) by (simp add: length_upto_cell6)
  have t2: "take (n - 12) (sql_cell ?L @ concat (drop 8 notebook)) = take (n - 12) (sql_cell ?L)"
    using m l by simp
  have t3: "take (n - 12) (sql_cell ?L) = sql_cell (take (n - 12) ?L)"
    unfolding sql_cell_def by (rule take_map)
  have t: "take n notebook_stmts = upto_cell6 @ sql_cell (take (n - 12) ?L)"
    by (subst notebook_stmts_split, subst take_append, simp only: t1 t2 t3 length_upto_cell6)
  from literal_steps[OF m, of "fk_enforced en" "db_at st ''testdb.sqlite''"]
  obtain d where d: "run_sql (fk_enforced en) (take (n - 12) ?L) ?d6 = Inr d"
    and i: "ref_integrity d"
    by blast
  have c: "sql_conn ?st1 = Some ''testdb.sqlite''" by simp
  have a: "db_at ?st1 ''testdb.sqlite'' = ?d6" by (simp add: db_at_def)
  have r: "run en (take n notebook_stmts) st = run en (sql_cell (take (n - 12) ?L)) ?st1"
    unfolding t run_append run_to_cell6[OF assms(1)] by simp
  show ?thesis
  proof (cases "take (n - 12) ?L = []")
    case True
    with d have "d = ?d6" by simp
    with True r i a show ?thesis by (simp add: sql_cell_def)
  next
    case False
    have "run en (take n notebook_stmts) st =
            Inr (?st1\<lparr>dbfiles := (dbfiles ?st1)(''testdb.sqlite'' \<mapsto> d)\<rparr>)"
      unfolding r run_sql_cell[OF c] a d using False by simp
    moreover have "db_at (?st1\<lparr>dbfiles := (dbfiles ?st1)(''testdb.sqlite'' \<mapsto> d)\<rparr>)
                     ''testdb.sqlite'' = d"
      by (simp add: db_at_def)
    ultimately show ?thesis using i by simp
  qed
qed

theorem literal_states_keep_integrity_witness:
  "dbfiles fresh ''testdb.sqlite'' = None \<and> (12::nat) \<le> 18 \<and> (18::nat) \<le> 21 \<and>
   (\<exists>st'. run \<lparr>fk_enforced = True, csv_files = Map.empty\<rparr> (take 18 notebook_stmts) fresh
             = Inr st' \<and>
           ref_integrity (db_at st' ''testdb.sqlite''))"
proof -
  have h: "\<not> fk_enforced \<lparr>fk_enforced = True, csv_files = Map.empty\<rparr>
      \<or> dbfiles fresh ''testdb.sqlite'' = None"
    by (simp add: fresh_def)
  have a: "(12::nat) \<le> 18" and b: "(18::nat) \<le> 21" by simp_all
  show ?thesis using literal_states_keep_integrity[OF h a b] by (simp add: fresh_def)
qed

section \<open>C8: errors are not caught\<close>




section \<open>C3: rows are only added, tables only dropped or replaced as a whole\<close>


















section \<open>C7: what the notebook reads and writes\<close>




lemma on_db_conns:
  "on_db st p r = Inr st' \<Longrightarrow> sql_conn st' = sql_conn st \<and> py_conns st' = py_conns st"
  by (auto simp: on_db_def split: sum.splits)





section \<open>C9: the bulk load replaces the tables\<close>











lemma upto_cell16_eq:
  "upto_cell16 =
     upto_cell10 @
     sql_cell [Select (select_all ''customers''), Select (select_all ''products''),
               Select (select_all ''orders'')] @
     cell16"
  by (simp add: upto_cell16_def upto_cell10_def notebook_def sql_cell_def
      cell12_def cell13_def cell14_def)

lemma selects_on_literal:
  "run_sql fk [Select (select_all ''customers''), Select (select_all ''products''),
               Select (select_all ''orders'')] (db_after_cell10 d0) = Inr (db_after_cell10 d0)"
  by (simp add: db_after_cell10_def select_all_def schema_defs check_core_def opt_list_def)


















section \<open>The bulk load under enforcement\<close>

text \<open>
  With enforcement on, the notebook cannot get past its own bulk load: replacing
  customers means dropping a table that the literal orders rows refer to, and the
  engine refuses. The notebook as written runs to its end only with enforcement off.
\<close>

lemma customers_referenced:
  "drop_table_if_exists True (db_after_cell10 fmempty) ''customers'' = Inl ForeignKeyViolation"
  by (simp add: drop_table_if_exists_def referenced_def fk_hits_def db_after_cell10_def
      db_after_cell6_def schema_defs is_parent_key_def col_values_def cell_at_def same_key_def
      customers_rows_def orders_rows_def products_rows_def)

lemma bulk_load_refused_when_enforced:
  assumes "fk_enforced en"
    and "csv_files en ''data/customers.csv'' = Some fc"
    and "csv_files en ''data/products.csv'' = Some fp"
    and "csv_files en ''data/orders.csv'' = Some fo"
  shows "run en upto_cell16 fresh = Inl ForeignKeyViolation"
proof -
  let ?f = "''testdb.sqlite''"
  let ?d10 = "db_after_cell10 fmempty"
  let ?st10 = "fresh\<lparr>sql_conn := Some ?f, dbfiles := (dbfiles fresh)(?f \<mapsto> ?d10)\<rparr>"
  have h: "\<not> fk_enforced en \<or> dbfiles fresh ?f = None" by (simp add: fresh_def)
  have e: "db_at fresh ?f = fmempty" by (simp add: db_at_def fresh_def)
  have a: "run en upto_cell10 fresh = Inr ?st10"
    using run_to_cell10[OF h] by (simp add: e)
  have c: "sql_conn ?st10 = Some ?f" by simp
  have d: "db_at ?st10 ?f = ?d10" by (simp add: db_at_def)
  have b: "run en (sql_cell [Select (select_all ''customers''), Select (select_all ''products''),
               Select (select_all ''orders'')]) ?st10 = Inr ?st10"
    unfolding run_sql_cell[OF c] d selects_on_literal by simp
  have l: "fmlookup ?d10 ''customers'' =
             Some \<lparr>tbl_cols = customers_cols, tbl_fks = [], tbl_rows = customers_rows\<rparr>"
    by (simp add: db_after_cell10_def)
  have t: "to_sql True ?d10 fc ''customers'' False Replace = Inl ForeignKeyViolation"
    by (simp add: to_sql_def l customers_referenced)
  have "run en cell16 ?st10 = Inl ForeignKeyViolation"
    using assms by (simp add: cell16_def on_db_def db_at_def t)
  then show ?thesis
    unfolding upto_cell16_eq run_append a b sum.case by simp
qed

end
